theory Spec2Isabelle
  imports Main
begin

section \<open>Data model of the operational-transformation engine\<close>

text \<open>
  Source: \<^verbatim>\<open>backend/src/services/operationTransform.ts\<close>.

  An \<^verbatim>\<open>Operation\<close> is a JavaScript object. The TypeScript interface declares
  \<^verbatim>\<open>length\<close> and \<open>content\<close> optional and the other fields required, but the
  validator tests every field for presence at run time, so every field is optional
  in the model. Conventions:
  \<^item> a string field is \<open>string option\<close>, \<open>None\<close> for \<^verbatim>\<open>undefined\<close>; one HOL
    character stands for one UTF-16 code unit;
  \<^item> a number field is \<open>jsnumber option\<close>. \<open>None\<close> stands for \<^verbatim>\<open>undefined\<close> and
    for \<^verbatim>\<open>NaN\<close> alike (every use of a number in this file treats the two the
    same: arithmetic yields \<^verbatim>\<open>NaN\<close>, comparisons are false, both are falsy).
    \<open>Some PosInf\<close> and \<open>Some NegInf\<close> are the two infinities and \<open>Some (Fin n)\<close> is
    the number with the integer value \<open>n\<close>. JavaScript numbers are IEEE 754
    doubles: sums and differences are rounded to the nearest double (see
    \<open>round_double\<close>), and \<open>Fin n\<close> denotes a JavaScript number only when \<open>n\<close> is
    itself a double, as every integer below \<open>2^53\<close> in magnitude is. Numbers with a
    fractional part are outside the model;
  \<^item> the \<^verbatim>\<open>type\<close> tag is one of the three declared strings, or \<open>Other\<close> for any
    other run-time value.
\<close>

datatype op_type = Retain | Insert | Delete | Other

datatype jsnumber = NegInf | Fin int | PosInf

record Operation =
  opId :: "string option"
  opType :: op_type
  opLength :: "jsnumber option"
  opContent :: "string option"
  author :: "string option"
  timestamp :: "jsnumber option"
  fileId :: "string option"

text \<open>One element of \<^verbatim>\<open>TextOperation.ops\<close>.\<close>

record step =
  stType :: op_type
  stLength :: "jsnumber option"
  stContent :: "string option"

type_synonym TextOperation = "step list"

text \<open>
  What a call can do besides returning: \<^verbatim>\<open>throw new Error(msg)\<close>, or the
  \<^verbatim>\<open>TypeError\<close> that JavaScript raises when a property of \<^verbatim>\<open>undefined\<close> is read.
\<close>

datatype error = Error string | TypeError

subsection \<open>JavaScript primitives used by the engine\<close>

text \<open>
  Rounding of an integer to the nearest double, ties to the even mantissa. Below
  \<open>2^53 = 9007199254740992\<close> every integer is a double. From there on a double has a
  mantissa \<open>m\<close> of 53 bits and a unit in the last place \<open>2^q\<close>, where \<open>q\<close> is the
  number of bits of the integer less 53; a result of \<open>2^1024\<close> or more overflows to
  the infinity of the same sign.
\<close>

fun bitLength :: "nat \<Rightarrow> nat" where
  "bitLength n = (if n = 0 then 0 else Suc (bitLength (n div 2)))"

declare bitLength.simps [simp del]

definition round_double :: "int \<Rightarrow> jsnumber" where
  "round_double n =
     (if \<bar>n\<bar> < 9007199254740992 then Fin n
      else
        let a = nat \<bar>n\<bar>;
            q = bitLength a - 53;
            m = a div 2 ^ q;
            r = a mod 2 ^ q;
            half = 2 ^ (q - 1);
            m' = (if half < r \<or> (r = half \<and> odd m) then m + 1 else m);
            v = m' * 2 ^ q
        in if 2 ^ 1024 \<le> v then (if n < 0 then NegInf else PosInf)
           else Fin (if n < 0 then - int v else int v))"

text \<open>The order of the numbers other than \<^verbatim>\<open>NaN\<close>.\<close>

fun num_le :: "jsnumber \<Rightarrow> jsnumber \<Rightarrow> bool" where
  "num_le NegInf _ = True"
| "num_le (Fin x) NegInf = False"
| "num_le (Fin x) (Fin y) = (x \<le> y)"
| "num_le (Fin x) PosInf = True"
| "num_le PosInf PosInf = True"
| "num_le PosInf _ = False"

text \<open>
  Sum and difference of two numbers other than \<^verbatim>\<open>NaN\<close>: the exact result
  rounded to a double (adding or subtracting zero is exact), and \<^verbatim>\<open>NaN\<close> for
  \<open>Infinity - Infinity\<close> and \<open>Infinity + (-Infinity)\<close>.
\<close>

fun num_sub :: "jsnumber \<Rightarrow> jsnumber \<Rightarrow> jsnumber option" where
  "num_sub (Fin x) (Fin y) = Some (if y = 0 then Fin x else round_double (x - y))"
| "num_sub (Fin x) PosInf = Some NegInf"
| "num_sub (Fin x) NegInf = Some PosInf"
| "num_sub PosInf PosInf = None"
| "num_sub PosInf _ = Some PosInf"
| "num_sub NegInf NegInf = None"
| "num_sub NegInf _ = Some NegInf"

fun num_add :: "jsnumber \<Rightarrow> jsnumber \<Rightarrow> jsnumber option" where
  "num_add (Fin x) (Fin y) =
     Some (if y = 0 then Fin x else if x = 0 then Fin y else round_double (x + y))"
| "num_add (Fin x) PosInf = Some PosInf"
| "num_add (Fin x) NegInf = Some NegInf"
| "num_add PosInf NegInf = None"
| "num_add PosInf _ = Some PosInf"
| "num_add NegInf PosInf = None"
| "num_add NegInf _ = Some NegInf"

text \<open>\<^verbatim>\<open>Math.min(a, b)\<close>, \<^verbatim>\<open>a - b\<close>, \<^verbatim>\<open>a + b\<close> on numbers: \<^verbatim>\<open>NaN\<close> is absorbing.\<close>

definition js_min :: "jsnumber option \<Rightarrow> jsnumber option \<Rightarrow> jsnumber option" where
  "js_min a b = (case a of None \<Rightarrow> None
                 | Some x \<Rightarrow> (case b of None \<Rightarrow> None
                              | Some y \<Rightarrow> Some (if num_le x y then x else y)))"

definition js_sub :: "jsnumber option \<Rightarrow> jsnumber option \<Rightarrow> jsnumber option" where
  "js_sub a b = (case a of None \<Rightarrow> None
                 | Some x \<Rightarrow> (case b of None \<Rightarrow> None | Some y \<Rightarrow> num_sub x y))"

definition js_add :: "jsnumber option \<Rightarrow> jsnumber option \<Rightarrow> jsnumber option" where
  "js_add a b = (case a of None \<Rightarrow> None
                 | Some x \<Rightarrow> (case b of None \<Rightarrow> None | Some y \<Rightarrow> num_add x y))"

text \<open>\<^verbatim>\<open>a <= b\<close> and \<^verbatim>\<open>a > b\<close>: false as soon as one side is \<^verbatim>\<open>NaN\<close>.\<close>

definition js_le :: "jsnumber option \<Rightarrow> jsnumber option \<Rightarrow> bool" where
  "js_le a b = (case a of None \<Rightarrow> False
                | Some x \<Rightarrow> (case b of None \<Rightarrow> False | Some y \<Rightarrow> num_le x y))"

definition js_gt :: "jsnumber option \<Rightarrow> jsnumber option \<Rightarrow> bool" where
  "js_gt a b = (case a of None \<Rightarrow> False
                | Some x \<Rightarrow> (case b of None \<Rightarrow> False | Some y \<Rightarrow> \<not> num_le x y))"

text \<open>Truthiness: \<^verbatim>\<open>!s\<close> for a string field, \<^verbatim>\<open>!n\<close> for a number field.\<close>

definition falsy_str :: "string option \<Rightarrow> bool" where
  "falsy_str s = (s = None \<or> s = Some [])"

definition falsy_num :: "jsnumber option \<Rightarrow> bool" where
  "falsy_num n = (n = None \<or> n = Some (Fin 0))"

text \<open>\<^verbatim>\<open>n || 0\<close> and \<^verbatim>\<open>s || ''\<close>.\<close>

definition num_or_zero :: "jsnumber option \<Rightarrow> jsnumber" where
  "num_or_zero n = (case n of None \<Rightarrow> Fin 0 | Some x \<Rightarrow> x)"

definition str_or_empty :: "string option \<Rightarrow> string" where
  "str_or_empty s = (case s of None \<Rightarrow> [] | Some x \<Rightarrow> x)"

text \<open>String concatenation \<^verbatim>\<open>result += s\<close> prints \<^verbatim>\<open>undefined\<close> as a word.\<close>

definition js_to_string :: "string option \<Rightarrow> string" where
  "js_to_string s = (case s of None \<Rightarrow> ''undefined'' | Some x \<Rightarrow> x)"

text \<open>
  \<^verbatim>\<open>text.substring(start, end)\<close>: each bound is clamped to \<open>[0, text.length]\<close> with
  \<^verbatim>\<open>NaN\<close> read as 0, the bounds are swapped when \<open>start > end\<close>.
\<close>

definition clamp_index :: "string \<Rightarrow> jsnumber option \<Rightarrow> nat" where
  "clamp_index text i =
     (case i of
        None \<Rightarrow> 0
      | Some NegInf \<Rightarrow> 0
      | Some (Fin v) \<Rightarrow> nat (min (max v 0) (int (length text)))
      | Some PosInf \<Rightarrow> length text)"

definition js_substring :: "string \<Rightarrow> jsnumber option \<Rightarrow> jsnumber option \<Rightarrow> string" where
  "js_substring text start end' =
     (let s = clamp_index text start;
          e = clamp_index text end';
          from = min s e;
          to = max s e
      in take (to - from) (drop from text))"

section \<open>Conversion between operations and edit scripts\<close>

definition operationToTextOp :: "Operation \<Rightarrow> TextOperation" where
  "operationToTextOp op =
     (case opType op of
        Insert \<Rightarrow> [\<lparr>stType = Insert, stLength = None, stContent = opContent op\<rparr>]
      | Delete \<Rightarrow> [\<lparr>stType = Delete, stLength = opLength op, stContent = None\<rparr>]
      | Retain \<Rightarrow> [\<lparr>stType = Retain, stLength = opLength op, stContent = None\<rparr>]
      | Other \<Rightarrow> [])"

text \<open>
  \<^verbatim>\<open>textOpToOperation\<close> reads \<^verbatim>\<open>textOp.ops[0].type\<close>: on an empty script
  \<^verbatim>\<open>ops[0]\<close> is \<^verbatim>\<open>undefined\<close> and the property access throws.
\<close>

definition textOpToOperation :: "TextOperation \<Rightarrow> Operation \<Rightarrow> error + Operation" where
  "textOpToOperation textOp originalOp =
     (case textOp of
        [] \<Rightarrow> Inl TypeError
      | firstOp # _ \<Rightarrow>
          Inr (originalOp\<lparr>opType := stType firstOp,
                           opContent := stContent firstOp,
                           opLength := stLength firstOp\<rparr>))"

section \<open>Apply engine\<close>

text \<open>The loop state of \<^verbatim>\<open>applyTextOperation\<close> is \<open>(result, index)\<close>.\<close>

definition applyStep :: "string \<Rightarrow> string \<times> jsnumber option \<Rightarrow> step \<Rightarrow> string \<times> jsnumber option" where
  "applyStep text st op =
     (case st of (result, index) \<Rightarrow>
        (case stType op of
           Retain \<Rightarrow> (result @ js_substring text index (js_add index (stLength op)),
                       js_add index (stLength op))
         | Insert \<Rightarrow> (result @ js_to_string (stContent op), index)
         | Delete \<Rightarrow> (result, js_add index (stLength op))
         | Other \<Rightarrow> (result, index)))"

definition applyTextOperation :: "string \<Rightarrow> TextOperation \<Rightarrow> string" where
  "applyTextOperation text operation = fst (foldl (applyStep text) ([], Some (Fin 0)) operation)"

definition applyOperation :: "string \<Rightarrow> Operation \<Rightarrow> string" where
  "applyOperation text operation = applyTextOperation text (operationToTextOp operation)"

section \<open>Compaction of an edit script\<close>

text \<open>
  \<^verbatim>\<open>compactTextOperation\<close> walks the script and either merges a step into the last
  step of the compacted script (same type) or appends a copy of it. A step of a type
  other than the three declared ones that follows a step of its own type is dropped.
\<close>

definition compactStep :: "TextOperation \<Rightarrow> step \<Rightarrow> TextOperation" where
  "compactStep compacted op =
     (if compacted \<noteq> [] \<and> stType (last compacted) = stType op then
        (if stType op = Retain \<or> stType op = Delete then
           butlast compacted @
             [(last compacted)\<lparr>stLength :=
                 js_add (Some (num_or_zero (stLength (last compacted))))
                        (Some (num_or_zero (stLength op)))\<rparr>]
         else if stType op = Insert then
           butlast compacted @
             [(last compacted)\<lparr>stContent :=
                 Some (str_or_empty (stContent (last compacted)) @ str_or_empty (stContent op))\<rparr>]
         else compacted)
      else compacted @ [op])"

definition compactTextOperation :: "TextOperation \<Rightarrow> TextOperation" where
  "compactTextOperation textOp = foldl compactStep [] textOp"

section \<open>Transform engine\<close>

text \<open>
  The \<^verbatim>\<open>while\<close> loop of \<^verbatim>\<open>transformTextOperations\<close>. The loop state is
  \<open>(ops1, ops2, result)\<close>: \<open>ops1\<close> and \<open>ops2\<close> are the parts of the two arrays from
  the cursors \<open>i\<close> and \<open>j\<close> on, with the in-place updates of the current steps'
  lengths applied (the steps before the cursors are never read again, and a step
  pushed onto the result by reference is never updated afterwards); \<open>result\<close> is
  \<^verbatim>\<open>result.ops\<close>. \<open>transformBody\<close> is one run of the loop body: it throws when
  it reads \<^verbatim>\<open>operation2.content!.length\<close> on an absent content. The loop need
  not end (a \<^verbatim>\<open>NaN\<close> length advances neither cursor), so \<open>transformLoop\<close> is
  partial: \<open>None\<close> is a run that never returns, \<open>Some (Inl e)\<close> a run that throws,
  \<open>Some (Inr r)\<close> a run that leaves the loop with \<open>r\<close>.

  \<open>advance operation len rest\<close> is the array from the cursor on after
  \<^verbatim>\<open>operation.length = len; if (operation.length === 0) cursor++\<close>.
\<close>

definition advance :: "step \<Rightarrow> jsnumber option \<Rightarrow> step list \<Rightarrow> step list" where
  "advance operation len rest =
     (if len = Some (Fin 0) then rest else operation\<lparr>stLength := len\<rparr> # rest)"

definition transformBody ::
  "bool \<Rightarrow> step list \<Rightarrow> step list \<Rightarrow> step list
     \<Rightarrow> error + (step list \<times> step list \<times> step list)"
where
  "transformBody priority ops1 ops2 result =
     (case ops1 of
        [] \<Rightarrow>
          (case ops2 of
             [] \<Rightarrow> Inr ([], [], result)
           | operation2 # rest2 \<Rightarrow> Inr ([], rest2, result @ [operation2]))
      | operation1 # rest1 \<Rightarrow>
          (case ops2 of
             [] \<Rightarrow> Inr (rest1, [], result @ [operation1])
           | operation2 # rest2 \<Rightarrow>
               if stType operation1 = Retain \<and> stType operation2 = Retain then
                 let minLength = js_min (stLength operation1) (stLength operation2);
                     len1 = js_sub (stLength operation1) minLength;
                     len2 = js_sub (stLength operation2) minLength
                 in Inr (advance operation1 len1 rest1, advance operation2 len2 rest2,
                         result @ [\<lparr>stType = Retain, stLength = minLength, stContent = None\<rparr>])
               else if stType operation1 = Insert \<and> stType operation2 = Insert then
                 if priority then Inr (rest1, ops2, result @ [operation1])
                 else
                   (case stContent operation2 of
                      None \<Rightarrow> Inl TypeError
                    | Some c2 \<Rightarrow>
                        Inr (rest1, rest2,
                             result @ [\<lparr>stType = Retain, stLength = Some (Fin (int (length c2))),
                                          stContent = None\<rparr>, operation1]))
               else if stType operation1 = Insert \<and> stType operation2 = Retain then
                 Inr (rest1, ops2, result @ [operation1])
               else if stType operation1 = Insert \<and> stType operation2 = Delete then
                 Inr (rest1, ops2, result @ [operation1])
               else if stType operation1 = Retain \<and> stType operation2 = Insert then
                 (case stContent operation2 of
                    None \<Rightarrow> Inl TypeError
                  | Some c2 \<Rightarrow>
                      Inr (ops1, rest2,
                           result @ [\<lparr>stType = Retain, stLength = Some (Fin (int (length c2))),
                                        stContent = None\<rparr>]))
               else if stType operation1 = Retain \<and> stType operation2 = Delete then
                 let deleteLength = stLength operation2;
                     retainLength = stLength operation1
                 in if js_le retainLength deleteLength then
                      Inr (rest1, advance operation2 (js_sub deleteLength retainLength) rest2,
                           result)
                    else
                      Inr (operation1\<lparr>stLength := js_sub retainLength deleteLength\<rparr> # rest1,
                           rest2, result)
               else if stType operation1 = Delete \<and> stType operation2 = Retain then
                 let deleteLength = stLength operation1;
                     retainLength = stLength operation2
                 in if js_le deleteLength retainLength then
                      Inr (rest1, advance operation2 (js_sub retainLength deleteLength) rest2,
                           result @ [operation1])
                    else
                      Inr (operation1\<lparr>stLength := js_sub deleteLength retainLength\<rparr> # rest1,
                           rest2,
                           result @ [\<lparr>stType = Delete, stLength = retainLength,
                                        stContent = None\<rparr>])
               else if stType operation1 = Delete \<and> stType operation2 = Insert then
                 (case stContent operation2 of
                    None \<Rightarrow> Inl TypeError
                  | Some c2 \<Rightarrow>
                      Inr (ops1, rest2,
                           result @ [\<lparr>stType = Retain, stLength = Some (Fin (int (length c2))),
                                        stContent = None\<rparr>]))
               else if stType operation1 = Delete \<and> stType operation2 = Delete then
                 let minLength = js_min (stLength operation1) (stLength operation2);
                     len1 = js_sub (stLength operation1) minLength;
                     len2 = js_sub (stLength operation2) minLength
                 in Inr (advance operation1 len1 rest1, advance operation2 len2 rest2, result)
               else Inr (ops1, ops2, result)))"

partial_function (option) transformLoop ::
  "bool \<Rightarrow> step list \<Rightarrow> step list \<Rightarrow> step list \<Rightarrow> (error + step list) option"
where
  "transformLoop priority ops1 ops2 result =
     (if ops1 = [] \<and> ops2 = [] then Some (Inr result)
      else (case transformBody priority ops1 ops2 result of
              Inl e \<Rightarrow> Some (Inl e)
            | Inr (ops1', ops2', result') \<Rightarrow> transformLoop priority ops1' ops2' result'))"

declare transformLoop.simps [code]

definition transformTextOperations ::
  "TextOperation \<Rightarrow> TextOperation \<Rightarrow> bool \<Rightarrow> (error + TextOperation) option"
where
  "transformTextOperations op1 op2 priority =
     (case transformLoop priority op1 op2 [] of
        None \<Rightarrow> None
      | Some (Inl e) \<Rightarrow> Some (Inl e)
      | Some (Inr result) \<Rightarrow> Some (Inr (compactTextOperation result)))"

definition transform :: "Operation \<Rightarrow> Operation \<Rightarrow> bool \<Rightarrow> (error + Operation) option" where
  "transform op1 op2 priority =
     (if fileId op1 \<noteq> fileId op2 then Some (Inr op1)
      else (case transformTextOperations (operationToTextOp op1) (operationToTextOp op2) priority of
              None \<Rightarrow> None
            | Some (Inl e) \<Rightarrow> Some (Inl e)
            | Some (Inr transformed) \<Rightarrow> Some (textOpToOperation transformed op1)))"

section \<open>Compose engine\<close>

text \<open>
  One run of the loop body of \<^verbatim>\<open>composeTextOperations\<close>, on the same loop state
  as the transform loop. \<^verbatim>\<open>operation1.content!.length\<close> throws on an absent
  content; \<^verbatim>\<open>content.substring(deleteLength)\<close> runs to the end of the content.
\<close>

definition composeBody ::
  "step list \<Rightarrow> step list \<Rightarrow> step list \<Rightarrow> error + (step list \<times> step list \<times> step list)"
where
  "composeBody ops1 ops2 result =
     (case ops1 of
        [] \<Rightarrow>
          (case ops2 of
             [] \<Rightarrow> Inr ([], [], result)
           | operation2 # rest2 \<Rightarrow> Inr ([], rest2, result @ [operation2]))
      | operation1 # rest1 \<Rightarrow>
          (case ops2 of
             [] \<Rightarrow> Inr (rest1, [], result @ [operation1])
           | operation2 # rest2 \<Rightarrow>
               if stType operation1 = Retain \<and> stType operation2 = Retain then
                 let minLength = js_min (stLength operation1) (stLength operation2);
                     len1 = js_sub (stLength operation1) minLength;
                     len2 = js_sub (stLength operation2) minLength
                 in Inr (advance operation1 len1 rest1, advance operation2 len2 rest2,
                         result @ [\<lparr>stType = Retain, stLength = minLength, stContent = None\<rparr>])
               else if stType operation1 = Insert \<and> stType operation2 = Retain then
                 (case stContent operation1 of
                    None \<Rightarrow> Inl TypeError
                  | Some c1 \<Rightarrow>
                      Inr (rest1,
                           advance operation2
                             (js_sub (stLength operation2) (Some (Fin (int (length c1))))) rest2,
                           result @ [operation1]))
               else if stType operation1 = Insert \<and> stType operation2 = Delete then
                 (case stContent operation1 of
                    None \<Rightarrow> Inl TypeError
                  | Some c1 \<Rightarrow>
                      let insertLength = Some (Fin (int (length c1)));
                          deleteLength = stLength operation2
                      in if js_le insertLength deleteLength then
                           Inr (rest1,
                                advance operation2 (js_sub deleteLength insertLength) rest2,
                                result)
                         else
                           Inr (rest1, rest2,
                                result @ [\<lparr>stType = Insert, stLength = None,
                                             stContent = Some (js_substring c1 deleteLength
                                                                 (Some (Fin (int (length c1)))))\<rparr>]))
               else Inr (rest1, ops2, result @ [operation1])))"

partial_function (option) composeLoop ::
  "step list \<Rightarrow> step list \<Rightarrow> step list \<Rightarrow> (error + step list) option"
where
  "composeLoop ops1 ops2 result =
     (if ops1 = [] \<and> ops2 = [] then Some (Inr result)
      else (case composeBody ops1 ops2 result of
              Inl e \<Rightarrow> Some (Inl e)
            | Inr (ops1', ops2', result') \<Rightarrow> composeLoop ops1' ops2' result'))"

declare composeLoop.simps [code]

definition composeTextOperations ::
  "TextOperation \<Rightarrow> TextOperation \<Rightarrow> (error + TextOperation) option"
where
  "composeTextOperations op1 op2 =
     (case composeLoop op1 op2 [] of
        None \<Rightarrow> None
      | Some (Inl e) \<Rightarrow> Some (Inl e)
      | Some (Inr result) \<Rightarrow> Some (Inr (compactTextOperation result)))"

definition compose :: "Operation \<Rightarrow> Operation \<Rightarrow> (error + Operation) option" where
  "compose op1 op2 =
     (if fileId op1 \<noteq> fileId op2
      then Some (Inl (Error ''Cannot compose operations on different files''))
      else (case composeTextOperations (operationToTextOp op1) (operationToTextOp op2) of
              None \<Rightarrow> None
            | Some (Inl e) \<Rightarrow> Some (Inl e)
            | Some (Inr composed) \<Rightarrow>
                Some (textOpToOperation composed
                        (op1\<lparr>opId := opId op2, timestamp := timestamp op2\<rparr>))))"

text \<open>
  Loop states in which neither loop advances a cursor: each array holds one step,
  the two steps have the same type \<open>t\<close>, and their lengths are both \<^verbatim>\<open>NaN\<close> or
  both \<^verbatim>\<open>Infinity\<close>, so that the minimum subtracted from either length leaves
  \<^verbatim>\<open>NaN\<close>, which is not zero.
\<close>

definition stuck :: "op_type \<Rightarrow> step list \<Rightarrow> step list \<Rightarrow> bool" where
  "stuck t ops1 ops2 \<longleftrightarrow>
     (\<exists>a b. ops1 = [a] \<and> ops2 = [b] \<and> stType a = t \<and> stType b = t
            \<and> (stLength a = None \<and> stLength b = None
                 \<or> stLength a = Some PosInf \<and> stLength b = Some PosInf))"

section \<open>Validator\<close>

definition isValidOperation :: "Operation \<Rightarrow> bool" where
  "isValidOperation op =
     (if falsy_str (opId op) \<or> falsy_str (author op) \<or> falsy_str (fileId op)
         \<or> falsy_num (timestamp op)
      then False
      else (case opType op of
              Insert \<Rightarrow> opContent op \<noteq> None \<and> length (the (opContent op)) > 0
            | Delete \<Rightarrow> opLength op \<noteq> None \<and> js_gt (opLength op) (Some (Fin 0))
            | Retain \<Rightarrow> opLength op \<noteq> None \<and> js_gt (opLength op) (Some (Fin 0))
            | Other \<Rightarrow> False))"

section \<open>Operation history\<close>

text \<open>
  \<^verbatim>\<open>OperationHistory.operations\<close> is a \<^verbatim>\<open>Map\<close> from file ids to arrays of
  operations; \<^verbatim>\<open>maxHistorySize\<close> is the private constant 1000. The methods
  take the map and return the new one. \<^verbatim>\<open>history.splice(0, k)\<close> removes the first
  \<open>k\<close> elements.
\<close>

type_synonym OperationHistory = "string option \<rightharpoonup> Operation list"

definition maxHistorySize :: nat where
  "maxHistorySize = 1000"

definition addOperation :: "string option \<Rightarrow> Operation \<Rightarrow> OperationHistory \<Rightarrow> OperationHistory" where
  "addOperation fid operation operations =
     (let operations1 = (if operations fid = None then operations(fid \<mapsto> []) else operations);
          history = the (operations1 fid) @ [operation];
          history' = (if length history > maxHistorySize
                      then drop (length history - maxHistorySize) history
                      else history)
      in operations1(fid \<mapsto> history'))"

text \<open>
  \<^verbatim>\<open>getOperations(fileId, since?)\<close>: the guard \<^verbatim>\<open>if (since)\<close> is a truthiness test,
  so an absent, \<^verbatim>\<open>NaN\<close> or zero \<open>since\<close> returns a copy of the whole history.
\<close>

definition getOperations :: "OperationHistory \<Rightarrow> string option \<Rightarrow> jsnumber option \<Rightarrow> Operation list" where
  "getOperations operations fid since =
     (let history = (case operations fid of None \<Rightarrow> [] | Some h \<Rightarrow> h)
      in if \<not> falsy_num since
         then filter (\<lambda>op. js_gt (timestamp op) since) history
         else history)"

definition getLastOperation :: "OperationHistory \<Rightarrow> string option \<Rightarrow> Operation option" where
  "getLastOperation operations fid =
     (let history = (case operations fid of None \<Rightarrow> [] | Some h \<Rightarrow> h)
      in if length history > 0 then Some (last history) else None)"

definition clear :: "string option \<Rightarrow> OperationHistory \<Rightarrow> OperationHistory" where
  "clear fid operations = operations(fid := None)"

definition clearAll :: "OperationHistory \<Rightarrow> OperationHistory" where
  "clearAll operations = Map.empty"

text \<open>
  The \<^verbatim>\<open>ConflictResolver\<close> owns one history; its \<^verbatim>\<open>addOperation(operation)\<close>
  files the operation under its own \<^verbatim>\<open>fileId\<close> and its
  \<^verbatim>\<open>getOperationsSince\<close> delegates to \<^verbatim>\<open>getOperations\<close>.
\<close>

definition resolverAddOperation :: "Operation \<Rightarrow> OperationHistory \<Rightarrow> OperationHistory" where
  "resolverAddOperation operation history = addOperation (fileId operation) operation history"

definition getOperationsSince :: "OperationHistory \<Rightarrow> string option \<Rightarrow> jsnumber option \<Rightarrow> Operation list" where
  "getOperationsSince history fid ts = getOperations history fid ts"

text \<open>A sequence of \<^verbatim>\<open>addOperation\<close> calls on a history, first call first.\<close>

definition addOperations ::
  "(string option \<times> Operation) list \<Rightarrow> OperationHistory \<Rightarrow> OperationHistory"
where
  "addOperations calls operations = foldl (\<lambda>h c. addOperation (fst c) (snd c) h) operations calls"

section \<open>The specification's wording of the validator\<close>

text \<open>
  The validator as the specification words it: the four provenance fields are
  present, an insert has a non-empty content, a delete or a retain has a length
  greater than zero, and nothing else is valid. It is compared with
  \<open>isValidOperation\<close> below.
\<close>

definition isValidOperation_spec :: "Operation \<Rightarrow> bool" where
  "isValidOperation_spec op =
     (opId op \<noteq> None \<and> author op \<noteq> None \<and> fileId op \<noteq> None \<and> timestamp op \<noteq> None
      \<and> (case opType op of
             Insert \<Rightarrow> opContent op \<noteq> None \<and> opContent op \<noteq> Some []
           | Delete \<Rightarrow> (case opLength op of
                          Some PosInf \<Rightarrow> True | Some (Fin n) \<Rightarrow> 0 < n | _ \<Rightarrow> False)
           | Retain \<Rightarrow> (case opLength op of
                          Some PosInf \<Rightarrow> True | Some (Fin n) \<Rightarrow> 0 < n | _ \<Rightarrow> False)
           | Other \<Rightarrow> False))"

section \<open>Properties of the number primitives\<close>

lemma bitLength_lower: "0 < n \<Longrightarrow> 2 ^ (bitLength n - 1) \<le> n"
proof (induction n rule: bitLength.induct)
  case (1 n)
  show ?case
  proof (cases "n div 2 = 0")
    case True
    with 1 have "n = 1" by (simp add: div_eq_0_iff)
    then show ?thesis by (simp add: bitLength.simps)
  next
    case False
    then have "0 < bitLength (n div 2)" by (subst bitLength.simps) simp
    then obtain l where l: "bitLength (n div 2) = Suc l" by (cases "bitLength (n div 2)") auto
    have ih: "2 ^ l \<le> n div 2" using 1 False l by simp
    have "bitLength n = Suc (Suc l)" using 1(2) l by (subst bitLength.simps) simp
    moreover have "2 * (n div 2) \<le> n" by simp
    ultimately show ?thesis using ih by simp
  qed
qed

text \<open>Integers below \<open>2^53\<close> in magnitude are doubles.\<close>

lemma round_double_small [simp]: "\<bar>n\<bar> < 9007199254740992 \<Longrightarrow> round_double n = Fin n"
  by (simp add: round_double_def)

text \<open>Rounding never turns a non-zero integer into zero.\<close>

lemma round_double_eq_zero_iff [simp]: "round_double n = Fin 0 \<longleftrightarrow> n = 0"
proof (cases "\<bar>n\<bar> < 9007199254740992")
  case True
  then show ?thesis by (simp add: round_double_def)
next
  case False
  define a where "a = nat \<bar>n\<bar>"
  define q where "q = bitLength a - 53"
  have apos: "0 < a" using False by (simp add: a_def)
  have "(2::nat) ^ q \<le> 2 ^ (bitLength a - 1)" by (rule power_increasing) (simp_all add: q_def)
  also have "\<dots> \<le> a" by (rule bitLength_lower [OF apos])
  finally have "1 \<le> a div 2 ^ q" by (simp add: Suc_le_eq div_greater_zero_iff)
  then have pos: "0 < (if 2 ^ (q - 1) < a mod 2 ^ q \<or> (a mod 2 ^ q = 2 ^ (q - 1) \<and> odd (a div 2 ^ q))
                      then a div 2 ^ q + 1 else a div 2 ^ q) * 2 ^ q"
    by simp
  have "n \<noteq> 0" using False by auto
  moreover have "round_double n \<noteq> Fin 0"
    using False pos unfolding round_double_def a_def [symmetric] Let_def q_def [symmetric]
    by (auto simp del: mult_pos_pos split: if_splits)
  ultimately show ?thesis by simp
qed

text \<open>The sum \<open>2^53 + 1\<close> is a tie between two doubles and goes to the even one.\<close>

lemma bitLength_example: "bitLength 9007199254740993 = 54"
  by (simp add: bitLength.simps)

lemma js_add_rounds:
  "js_add (Some (Fin 9007199254740992)) (Some (Fin 1)) = Some (Fin 9007199254740992)"
  by (simp add: js_add_def round_double_def bitLength_example)

lemma js_gt_zero_iff:
  "js_gt l (Some (Fin 0)) \<longleftrightarrow> l = Some PosInf \<or> (\<exists>n. 0 < n \<and> l = Some (Fin n))"
  by (cases l; simp add: js_gt_def; case_tac a; auto)

section \<open>Properties of the apply engine\<close>

lemmas apply_defs = applyOperation_def applyTextOperation_def applyStep_def operationToTextOp_def
  js_substring_def clamp_index_def js_add_def js_to_string_def

lemma applyOperation_Retain:
  "opType op = Retain \<Longrightarrow> opLength op = Some (Fin n) \<Longrightarrow>
     applyOperation text op = take (nat n) text"
  by (simp add: apply_defs min_def max_def)

lemma applyOperation_Retain_PosInf:
  "opType op = Retain \<Longrightarrow> opLength op = Some PosInf \<Longrightarrow> applyOperation text op = text"
  by (simp add: apply_defs)

lemma applyOperation_Delete: "opType op = Delete \<Longrightarrow> applyOperation text op = []"
  by (simp add: apply_defs)

lemma applyOperation_Insert:
  "opType op = Insert \<Longrightarrow> opContent op = Some c \<Longrightarrow> applyOperation text op = c"
  by (simp add: apply_defs)

lemma valid_Retain:
  "isValidOperation op \<Longrightarrow> opType op = Retain \<Longrightarrow>
     opLength op = Some PosInf \<or> (\<exists>n. 0 < n \<and> opLength op = Some (Fin n))"
  by (auto simp: isValidOperation_def js_gt_zero_iff split: if_splits)

lemma valid_Delete:
  "isValidOperation op \<Longrightarrow> opType op = Delete \<Longrightarrow>
     opLength op = Some PosInf \<or> (\<exists>n. 0 < n \<and> opLength op = Some (Fin n))"
  by (auto simp: isValidOperation_def js_gt_zero_iff split: if_splits)

lemma valid_Insert:
  "isValidOperation op \<Longrightarrow> opType op = Insert \<Longrightarrow> \<exists>c. c \<noteq> [] \<and> opContent op = Some c"
  by (auto simp: isValidOperation_def split: if_splits option.splits)

lemma valid_not_Other: "isValidOperation op \<Longrightarrow> opType op \<noteq> Other"
  by (auto simp: isValidOperation_def split: if_splits)

text \<open>
  Claim C3 (apply correctness). The three calls of the claim, evaluated on the code:
  \<^verbatim>\<open>apply("Hello World", Retain(5))\<close> is \<^verbatim>\<open>"Hello"\<close> and
  \<^verbatim>\<open>apply("", Insert("Hello"))\<close> is \<^verbatim>\<open>"Hello"\<close>, but
  \<^verbatim>\<open>apply("Hello World", Delete(6))\<close> is the empty string, not \<^verbatim>\<open>"World"\<close>:
  \<^verbatim>\<open>applyTextOperation\<close> advances its index over the deleted characters and returns
  without copying the text that follows the last step. The repository's own test
  \<^verbatim>\<open>should apply delete operation correctly\<close> expects \<^verbatim>\<open>"World"\<close>.
\<close>

theorem apply_examples_on_code:
  "applyOperation ''Hello World''
        \<lparr>opId = Some ''op1'', opType = Delete, opLength = Some (Fin 6), opContent = None,
         author = Some ''user1'', timestamp = Some (Fin 1000), fileId = Some ''file1''\<rparr> = []
   \<and> applyOperation ''Hello World''
        \<lparr>opId = Some ''op1'', opType = Retain, opLength = Some (Fin 5), opContent = None,
         author = Some ''user1'', timestamp = Some (Fin 1000), fileId = Some ''file1''\<rparr> = ''Hello''
   \<and> applyOperation []
        \<lparr>opId = Some ''op1'', opType = Insert, opLength = None, opContent = Some ''Hello'',
         author = Some ''user1'', timestamp = Some (Fin 1000), fileId = Some ''file1''\<rparr> = ''Hello''"
  by (simp add: apply_defs)

text \<open>
  Claim C4 (apply never fails, lengths are clamped). \<open>applyOperation\<close> has no error
  result because the source has no statement that throws: \<^verbatim>\<open>substring\<close> clamps its
  bounds and string concatenation accepts any value. For a validator-accepted
  operation the result is: for \<open>Retain n\<close> the first \<open>n\<close> characters of the text, the
  whole text when \<open>n\<close> exceeds its length or is infinite; for \<open>Delete n\<close> the empty
  string whatever \<open>n\<close> is; for \<open>Insert c\<close> the content \<open>c\<close>. In particular
  \<^verbatim>\<open>apply("Hi", Delete(10))\<close> is the empty string.
\<close>

theorem apply_never_fails_and_clamps:
  assumes "isValidOperation op"
  shows "(opType op = Retain \<longrightarrow>
            (\<forall>n. opLength op = Some (Fin n) \<longrightarrow>
                 applyOperation text op = take (nat n) text
                 \<and> (int (length text) < n \<longrightarrow> applyOperation text op = text))
            \<and> (opLength op = Some PosInf \<longrightarrow> applyOperation text op = text))
       \<and> (opType op = Delete \<longrightarrow> applyOperation text op = [])
       \<and> (opType op = Insert \<longrightarrow> applyOperation text op = the (opContent op))
       \<and> applyOperation ''Hi''
        \<lparr>opId = Some ''op1'', opType = Delete, opLength = Some (Fin 10), opContent = None,
         author = Some ''user1'', timestamp = Some (Fin 1000), fileId = Some ''file1''\<rparr> = []"
proof -
  have i: "applyOperation text op = the (opContent op)" if "opType op = Insert"
    using valid_Insert [OF assms that] applyOperation_Insert [OF that] by auto
  show ?thesis
    using i by (auto simp: applyOperation_Delete applyOperation_Retain applyOperation_Retain_PosInf)
qed

theorem apply_never_fails_and_clamps_witness:
  "isValidOperation
        \<lparr>opId = Some ''op1'', opType = Retain, opLength = Some (Fin 10), opContent = None,
         author = Some ''user1'', timestamp = Some (Fin 1000), fileId = Some ''file1''\<rparr>
   \<and> int (length ''Hi'') < 10
   \<and> applyOperation ''Hi''
        \<lparr>opId = Some ''op1'', opType = Retain, opLength = Some (Fin 10), opContent = None,
         author = Some ''user1'', timestamp = Some (Fin 1000), fileId = Some ''file1''\<rparr> = ''Hi''"
proof -
  have v: "isValidOperation
        \<lparr>opId = Some ''op1'', opType = Retain, opLength = Some (Fin 10), opContent = None,
         author = Some ''user1'', timestamp = Some (Fin 1000), fileId = Some ''file1''\<rparr>"
    by (simp add: isValidOperation_def falsy_str_def falsy_num_def js_gt_def)
  show ?thesis
    using v apply_never_fails_and_clamps [OF v, of "''Hi''"] by simp
qed

section \<open>Properties of the transform engine\<close>

text \<open>
  Claim C5 (cross-document transform is a no-op). When the two file ids differ,
  \<open>transform\<close> returns its first operand itself, whatever the priority: it neither
  throws nor loops.
\<close>

theorem transform_cross_file_returns_op1:
  "fileId op1 \<noteq> fileId op2 \<Longrightarrow> transform op1 op2 priority = Some (Inr op1)"
  by (simp add: transform_def)

theorem transform_cross_file_returns_op1_witness:
  "fileId
        \<lparr>opId = Some ''op1'', opType = Insert, opLength = None, opContent = Some ''A'',
         author = Some ''user1'', timestamp = Some (Fin 1000), fileId = Some ''file1''\<rparr>
     \<noteq> fileId
        \<lparr>opId = Some ''op2'', opType = Insert, opLength = None, opContent = Some ''B'',
         author = Some ''user2'', timestamp = Some (Fin 1001), fileId = Some ''file2''\<rparr>
   \<and> transform
        \<lparr>opId = Some ''op1'', opType = Insert, opLength = None, opContent = Some ''A'',
         author = Some ''user1'', timestamp = Some (Fin 1000), fileId = Some ''file1''\<rparr>
        \<lparr>opId = Some ''op2'', opType = Insert, opLength = None, opContent = Some ''B'',
         author = Some ''user2'', timestamp = Some (Fin 1001), fileId = Some ''file2''\<rparr>
       False
     = Some (Inr
        \<lparr>opId = Some ''op1'', opType = Insert, opLength = None, opContent = Some ''A'',
         author = Some ''user1'', timestamp = Some (Fin 1000), fileId = Some ''file1''\<rparr>)"
  using transform_cross_file_returns_op1
    [of "
        \<lparr>opId = Some ''op1'', opType = Insert, opLength = None, opContent = Some ''A'',
         author = Some ''user1'', timestamp = Some (Fin 1000), fileId = Some ''file1''\<rparr>"
        "
        \<lparr>opId = Some ''op2'', opType = Insert, opLength = None, opContent = Some ''B'',
         author = Some ''user2'', timestamp = Some (Fin 1001), fileId = Some ''file2''\<rparr>"
        False]
  by simp

text \<open>
  What \<open>transform\<close> does on two operations of the same file with finite lengths, by
  the types of the two operations. The script it builds is empty, and
  \<open>textOpToOperation\<close> throws, when a retain or a delete meets a delete of the same
  length.
\<close>

lemmas transform_defs = transform_def transformTextOperations_def transformLoop.simps
  transformBody_def operationToTextOp_def textOpToOperation_def compactTextOperation_def
  compactStep_def advance_def js_min_def js_sub_def js_le_def js_add_def num_or_zero_def
  str_or_empty_def

lemma transform_Retain_Retain:
  assumes "fileId op1 = fileId op2" "opType op1 = Retain" "opType op2 = Retain"
    "opLength op1 = Some (Fin n1)" "opLength op2 = Some (Fin n2)"
  shows "\<exists>r. transform op1 op2 priority = Some (Inr r)"
  using assms by (cases "n1 \<le> n2"; cases "n2 \<le> n1") (simp_all add: transform_defs)

lemma transform_Insert_any:
  assumes "fileId op1 = fileId op2" "opType op1 = Insert" "opType op2 \<noteq> Other"
    "opContent op1 = Some c1" "opType op2 = Insert \<longrightarrow> opContent op2 = Some c2"
  shows "transform op1 op2 priority =
           Some (Inr (if opType op2 = Insert then
                         (if priority
                          then op1\<lparr>opType := Insert, opContent := Some (c1 @ c2),
                                   opLength := None\<rparr>
                          else op1\<lparr>opType := Retain, opContent := None,
                                   opLength := Some (Fin (int (length c2)))\<rparr>)
                      else op1\<lparr>opType := Insert, opContent := Some c1, opLength := None\<rparr>))"
  using assms by (cases "opType op2") (simp_all add: transform_defs)

lemma transform_any_Insert:
  assumes "fileId op1 = fileId op2" "opType op1 = Retain \<or> opType op1 = Delete"
    "opType op2 = Insert" "opContent op2 = Some c2"
  shows "\<exists>r. transform op1 op2 priority = Some (Inr r)"
  using assms by (auto simp add: transform_defs)

lemma transform_Retain_Delete:
  assumes "fileId op1 = fileId op2" "opType op1 = Retain" "opType op2 = Delete"
    "opLength op1 = Some (Fin n1)" "opLength op2 = Some (Fin n2)"
  shows "if n1 = n2 then transform op1 op2 priority = Some (Inl TypeError)
         else (\<exists>r. transform op1 op2 priority = Some (Inr r))"
  using assms by (cases "n1 \<le> n2") (simp_all add: transform_defs Let_def)

lemma transform_Delete_Retain:
  assumes "fileId op1 = fileId op2" "opType op1 = Delete" "opType op2 = Retain"
    "opLength op1 = Some (Fin n1)" "opLength op2 = Some (Fin n2)"
  shows "\<exists>r. transform op1 op2 priority = Some (Inr r)"
  using assms by (cases "n1 \<le> n2"; cases "n1 = n2") (simp_all add: transform_defs Let_def)

lemma transform_Delete_Delete:
  assumes "fileId op1 = fileId op2" "opType op1 = Delete" "opType op2 = Delete"
    "opLength op1 = Some (Fin n1)" "opLength op2 = Some (Fin n2)"
  shows "if n1 = n2 then transform op1 op2 priority = Some (Inl TypeError)
         else (\<exists>r. transform op1 op2 priority = Some (Inr r))"
  using assms by (cases "n1 \<le> n2"; cases "n2 \<le> n1") (simp_all add: transform_defs)

text \<open>
  On validator-accepted operations of one file whose lengths are finite,
  \<open>transform\<close> always ends: it throws exactly when a retain or a delete is
  transformed against a delete of the same length, and returns an operation
  otherwise.
\<close>

lemma transform_valid_outcome:
  assumes v1: "isValidOperation op1" and v2: "isValidOperation op2"
    and f: "fileId op1 = fileId op2"
    and fin1: "opLength op1 \<noteq> Some PosInf" and fin2: "opLength op2 \<noteq> Some PosInf"
  shows "(if (opType op1 = Retain \<or> opType op1 = Delete) \<and> opType op2 = Delete
             \<and> opLength op1 = opLength op2
          then transform op1 op2 priority = Some (Inl TypeError)
          else (\<exists>r. transform op1 op2 priority = Some (Inr r)))"
proof (cases "opType op1")
  case Retain
  from valid_Retain [OF v1 Retain] fin1 obtain n1 where n1: "opLength op1 = Some (Fin n1)"
    by blast
  show ?thesis
  proof (cases "opType op2")
    case t2: Retain
    from valid_Retain [OF v2 t2] fin2 obtain n2 where "opLength op2 = Some (Fin n2)" by blast
    then show ?thesis
      using transform_Retain_Retain [OF f Retain t2 n1] t2 by simp
  next
    case t2: Insert
    from valid_Insert [OF v2 t2] obtain c2 where "opContent op2 = Some c2" by blast
    then show ?thesis
      using transform_any_Insert [OF f _ t2] Retain t2 by simp
  next
    case t2: Delete
    from valid_Delete [OF v2 t2] fin2 obtain n2 where "opLength op2 = Some (Fin n2)" by blast
    then show ?thesis
      using transform_Retain_Delete [OF f Retain t2 n1, of n2 priority] Retain t2 n1
      by (simp split: if_splits)
  next
    case Other
    with valid_not_Other [OF v2] show ?thesis by simp
  qed
next
  case Insert
  from valid_Insert [OF v1 Insert] obtain c1 where c1: "opContent op1 = Some c1" by blast
  have "\<exists>c2. opType op2 = Insert \<longrightarrow> opContent op2 = Some c2"
    using valid_Insert [OF v2] by blast
  then obtain c2 where c2: "opType op2 = Insert \<longrightarrow> opContent op2 = Some c2" by blast
  show ?thesis
    using transform_Insert_any [OF f Insert valid_not_Other [OF v2] c1 c2, of priority] Insert
    by simp
next
  case Delete
  from valid_Delete [OF v1 Delete] fin1 obtain n1 where n1: "opLength op1 = Some (Fin n1)"
    by blast
  show ?thesis
  proof (cases "opType op2")
    case t2: Retain
    from valid_Retain [OF v2 t2] fin2 obtain n2 where "opLength op2 = Some (Fin n2)" by blast
    then show ?thesis
      using transform_Delete_Retain [OF f Delete t2 n1] t2 by simp
  next
    case t2: Insert
    from valid_Insert [OF v2 t2] obtain c2 where "opContent op2 = Some c2" by blast
    then show ?thesis
      using transform_any_Insert [OF f _ t2] Delete t2 by simp
  next
    case t2: Delete
    from valid_Delete [OF v2 t2] fin2 obtain n2 where "opLength op2 = Some (Fin n2)" by blast
    then show ?thesis
      using transform_Delete_Delete [OF f Delete t2 n1, of n2 priority] Delete t2 n1
      by (simp split: if_splits)
  next
    case Other
    with valid_not_Other [OF v2] show ?thesis by simp
  qed
next
  case Other
  with valid_not_Other [OF v1] show ?thesis by simp
qed

text \<open>
  The validator also accepts the length \<^verbatim>\<open>Infinity\<close>. Two retains, or two
  deletes, of infinite length keep the loop in a state from which it never
  advances, so \<open>transform\<close> does not return.
\<close>

lemma transformBody_stuck:
  assumes "stuck t ops1 ops2" and "t = Retain \<or> t = Delete"
  shows "\<exists>ops1' ops2' result'.
           transformBody priority ops1 ops2 result = Inr (ops1', ops2', result')
           \<and> stuck t ops1' ops2'"
  using assms
  by (auto simp: stuck_def transformBody_def advance_def js_min_def js_sub_def Let_def)

lemma transformLoop_stuck:
  assumes t: "t = Retain \<or> t = Delete"
  shows "transformLoop priority ops1 ops2 result = Some y \<Longrightarrow> \<not> stuck t ops1 ops2"
proof (rule transformLoop.raw_induct [where P = "\<lambda>p o1 o2 r y. \<not> stuck t o1 o2"], goal_cases)
  case (1 f p o1 o2 r z)
  show ?case
  proof
    assume s: "stuck t o1 o2"
    from transformBody_stuck [OF s t, of p r] obtain o1' o2' r' where
      b: "transformBody p o1 o2 r = Inr (o1', o2', r')" and s': "stuck t o1' o2'"
      by blast
    from s have "\<not> (o1 = [] \<and> o2 = [])" by (auto simp: stuck_def)
    with 1(3) b have "f p o1' o2' r' = Some z" by simp
    from 1(2) [OF this] s' show False by blast
  qed
qed

lemma transform_infinite_lengths_diverges:
  assumes "fileId op1 = fileId op2" "opType op1 = opType op2"
    "opType op1 = Retain \<or> opType op1 = Delete"
    "opLength op1 = Some PosInf" "opLength op2 = Some PosInf"
  shows "transform op1 op2 priority = None"
proof -
  have "transformLoop priority (operationToTextOp op1) (operationToTextOp op2) [] = None"
  proof (cases "transformLoop priority (operationToTextOp op1) (operationToTextOp op2) []")
    case (Some y)
    from transformLoop_stuck [OF assms(3) Some] assms show ?thesis
      by (auto simp: operationToTextOp_def stuck_def)
  qed simp
  then show ?thesis using assms by (simp add: transform_def transformTextOperations_def)
qed

text \<open>
  Claim C10 (frame of transform). Whenever \<open>transform\<close> returns an operation for
  two operations of the same file, that operation has the id, author, timestamp and
  file id of the first operand: \<open>textOpToOperation\<close> copies the first operand and
  overwrites only its type, content and length.
\<close>

theorem transform_preserves_provenance:
  assumes "fileId op1 = fileId op2" and "transform op1 op2 priority = Some (Inr r)"
  shows "opId r = opId op1 \<and> author r = author op1 \<and> timestamp r = timestamp op1
         \<and> fileId r = fileId op1"
  using assms
  by (auto simp: transform_def textOpToOperation_def split: option.splits sum.splits list.splits)

theorem transform_preserves_provenance_witness:
  "fileId
        \<lparr>opId = Some ''op1'', opType = Insert, opLength = None, opContent = Some ''A'',
         author = Some ''user1'', timestamp = Some (Fin 1000), fileId = Some ''file1''\<rparr> = fileId
        \<lparr>opId = Some ''op2'', opType = Insert, opLength = None, opContent = Some ''B'',
         author = Some ''user2'', timestamp = Some (Fin 1001), fileId = Some ''file1''\<rparr>
   \<and> transform
        \<lparr>opId = Some ''op1'', opType = Insert, opLength = None, opContent = Some ''A'',
         author = Some ''user1'', timestamp = Some (Fin 1000), fileId = Some ''file1''\<rparr>
        \<lparr>opId = Some ''op2'', opType = Insert, opLength = None, opContent = Some ''B'',
         author = Some ''user2'', timestamp = Some (Fin 1001), fileId = Some ''file1''\<rparr> True = Some (Inr
        \<lparr>opId = Some ''op1'', opType = Insert, opLength = None, opContent = Some ''AB'',
         author = Some ''user1'', timestamp = Some (Fin 1000), fileId = Some ''file1''\<rparr>)
   \<and> opId
        \<lparr>opId = Some ''op1'', opType = Insert, opLength = None, opContent = Some ''AB'',
         author = Some ''user1'', timestamp = Some (Fin 1000), fileId = Some ''file1''\<rparr> = Some ''op1''
   \<and> author
        \<lparr>opId = Some ''op1'', opType = Insert, opLength = None, opContent = Some ''AB'',
         author = Some ''user1'', timestamp = Some (Fin 1000), fileId = Some ''file1''\<rparr> = Some ''user1''
   \<and> timestamp
        \<lparr>opId = Some ''op1'', opType = Insert, opLength = None, opContent = Some ''AB'',
         author = Some ''user1'', timestamp = Some (Fin 1000), fileId = Some ''file1''\<rparr> = Some (Fin 1000)
   \<and> fileId
        \<lparr>opId = Some ''op1'', opType = Insert, opLength = None, opContent = Some ''AB'',
         author = Some ''user1'', timestamp = Some (Fin 1000), fileId = Some ''file1''\<rparr> = Some ''file1''"
proof -
  have t: "transform
        \<lparr>opId = Some ''op1'', opType = Insert, opLength = None, opContent = Some ''A'',
         author = Some ''user1'', timestamp = Some (Fin 1000), fileId = Some ''file1''\<rparr>
        \<lparr>opId = Some ''op2'', opType = Insert, opLength = None, opContent = Some ''B'',
         author = Some ''user2'', timestamp = Some (Fin 1001), fileId = Some ''file1''\<rparr> True = Some (Inr
        \<lparr>opId = Some ''op1'', opType = Insert, opLength = None, opContent = Some ''AB'',
         author = Some ''user1'', timestamp = Some (Fin 1000), fileId = Some ''file1''\<rparr>)"
    by (simp add: transform_defs)
  show ?thesis
    using t transform_preserves_provenance [OF _ t] by simp
qed

text \<open>
  Claim C1 (convergence of two concurrent inserts). On the code,
  \<open>A' = transform opA opB True\<close> is the insert of \<^verbatim>\<open>" Beautiful Amazing"\<close> (the loop
  appends the rest of \<open>opB\<close>'s script and compaction merges the two inserts) and
  \<open>B' = transform opB opA False\<close> is \<open>Retain 10\<close> (only the first step of the script
  \<open>[Retain 10, Insert " Amazing"]\<close> is kept). Applying \<open>A'\<close> then \<open>B'\<close> to
  \<^verbatim>\<open>"Hello"\<close> gives \<^verbatim>\<open>" Beautiful"\<close>; applying \<open>B'\<close> then \<open>A'\<close> gives
  \<^verbatim>\<open>" Beautiful Amazing"\<close>. The two orders do not converge, although the
  repository's test \<^verbatim>\<open>should maintain consistency with concurrent operations\<close>
  expects them to.
\<close>

theorem concurrent_inserts_on_code:
  "transform
        \<lparr>opId = Some ''opA'', opType = Insert, opLength = None, opContent = Some '' Beautiful'',
         author = Some ''a'', timestamp = Some (Fin 1000), fileId = Some ''file1''\<rparr>
        \<lparr>opId = Some ''opB'', opType = Insert, opLength = None, opContent = Some '' Amazing'',
         author = Some ''b'', timestamp = Some (Fin 1000), fileId = Some ''file1''\<rparr> True = Some (Inr
        \<lparr>opId = Some ''opA'', opType = Insert, opLength = None, opContent = Some '' Beautiful Amazing'',
         author = Some ''a'', timestamp = Some (Fin 1000), fileId = Some ''file1''\<rparr>)
   \<and> transform
        \<lparr>opId = Some ''opB'', opType = Insert, opLength = None, opContent = Some '' Amazing'',
         author = Some ''b'', timestamp = Some (Fin 1000), fileId = Some ''file1''\<rparr>
        \<lparr>opId = Some ''opA'', opType = Insert, opLength = None, opContent = Some '' Beautiful'',
         author = Some ''a'', timestamp = Some (Fin 1000), fileId = Some ''file1''\<rparr> False = Some (Inr
        \<lparr>opId = Some ''opB'', opType = Retain, opLength = Some (Fin 10), opContent = None,
         author = Some ''b'', timestamp = Some (Fin 1000), fileId = Some ''file1''\<rparr>)
   \<and> applyOperation (applyOperation ''Hello''
        \<lparr>opId = Some ''opA'', opType = Insert, opLength = None, opContent = Some '' Beautiful Amazing'',
         author = Some ''a'', timestamp = Some (Fin 1000), fileId = Some ''file1''\<rparr>)
        \<lparr>opId = Some ''opB'', opType = Retain, opLength = Some (Fin 10), opContent = None,
         author = Some ''b'', timestamp = Some (Fin 1000), fileId = Some ''file1''\<rparr> = '' Beautiful''
   \<and> applyOperation (applyOperation ''Hello''
        \<lparr>opId = Some ''opB'', opType = Retain, opLength = Some (Fin 10), opContent = None,
         author = Some ''b'', timestamp = Some (Fin 1000), fileId = Some ''file1''\<rparr>)
        \<lparr>opId = Some ''opA'', opType = Insert, opLength = None, opContent = Some '' Beautiful Amazing'',
         author = Some ''a'', timestamp = Some (Fin 1000), fileId = Some ''file1''\<rparr> = '' Beautiful Amazing''"
  by (simp add: transform_defs applyOperation_def applyTextOperation_def applyStep_def
        js_substring_def clamp_index_def js_to_string_def)

section \<open>Properties of the compose engine\<close>

lemmas compose_defs = compose_def composeTextOperations_def composeLoop.simps composeBody_def
  operationToTextOp_def textOpToOperation_def compactTextOperation_def compactStep_def
  advance_def js_min_def js_sub_def js_le_def js_add_def num_or_zero_def str_or_empty_def
  js_substring_def clamp_index_def Let_def

lemma compose_cross_file:
  "fileId op1 \<noteq> fileId op2 \<Longrightarrow>
     compose op1 op2 = Some (Inl (Error ''Cannot compose operations on different files''))"
  by (simp add: compose_def)

text \<open>
  Two retains of infinite length, which the validator accepts, keep the loop of
  \<open>composeTextOperations\<close> in a state from which it never advances: \<open>compose\<close> does
  not return.
\<close>

lemma composeBody_stuck:
  assumes "stuck Retain ops1 ops2"
  shows "\<exists>ops1' ops2' result'.
           composeBody ops1 ops2 result = Inr (ops1', ops2', result')
           \<and> stuck Retain ops1' ops2'"
  using assms
  by (auto simp: stuck_def composeBody_def advance_def js_min_def js_sub_def Let_def)

lemma composeLoop_stuck:
  "composeLoop ops1 ops2 result = Some y \<Longrightarrow> \<not> stuck Retain ops1 ops2"
proof (rule composeLoop.raw_induct [where P = "\<lambda>o1 o2 r y. \<not> stuck Retain o1 o2"], goal_cases)
  case (1 f o1 o2 r z)
  show ?case
  proof
    assume s: "stuck Retain o1 o2"
    from composeBody_stuck [OF s, of r] obtain o1' o2' r' where
      b: "composeBody o1 o2 r = Inr (o1', o2', r')" and s': "stuck Retain o1' o2'"
      by blast
    from s have "\<not> (o1 = [] \<and> o2 = [])" by (auto simp: stuck_def)
    with 1(3) b have "f o1' o2' r' = Some z" by simp
    from 1(2) [OF this] s' show False by blast
  qed
qed

lemma compose_infinite_retains_diverges:
  assumes "fileId op1 = fileId op2" "opType op1 = Retain" "opType op2 = Retain"
    "opLength op1 = Some PosInf" "opLength op2 = Some PosInf"
  shows "compose op1 op2 = None"
proof -
  have "composeLoop (operationToTextOp op1) (operationToTextOp op2) [] = None"
  proof (cases "composeLoop (operationToTextOp op1) (operationToTextOp op2) []")
    case (Some y)
    from composeLoop_stuck [OF Some] assms show ?thesis
      by (auto simp: operationToTextOp_def stuck_def)
  qed simp
  then show ?thesis using assms by (simp add: compose_def composeTextOperations_def)
qed

text \<open>
  Claim C2 (compose is equivalent to the sequence). On the code the composed
  operation does not act as the two operations in sequence. For \<open>Retain 1\<close>
  followed by \<open>Retain 2\<close> on one file, both validator-accepted, \<open>compose\<close> returns
  \<open>Retain 2\<close> (the rest of the second retain is appended to the script and merged
  with the common part): applied to \<^verbatim>\<open>"Hello"\<close> it gives \<^verbatim>\<open>"He"\<close>, while the
  first retain gives \<^verbatim>\<open>"H"\<close> and the second leaves \<^verbatim>\<open>"H"\<close>. For the two
  inserts of the repository's composition test \<open>compose\<close> returns the insert of
  \<^verbatim>\<open>"Hello World"\<close>, which applied to the empty text gives \<^verbatim>\<open>"Hello World"\<close>,
  while applying the first and then the second gives \<^verbatim>\<open>" World"\<close>.
\<close>

theorem compose_differs_from_sequence:
  "isValidOperation
        \<lparr>opId = Some ''op1'', opType = Retain, opLength = Some (Fin 1), opContent = None,
         author = Some ''user1'', timestamp = Some (Fin 1000), fileId = Some ''file1''\<rparr>
   \<and> isValidOperation
        \<lparr>opId = Some ''op2'', opType = Retain, opLength = Some (Fin 2), opContent = None,
         author = Some ''user1'', timestamp = Some (Fin 1001), fileId = Some ''file1''\<rparr>
   \<and> compose
        \<lparr>opId = Some ''op1'', opType = Retain, opLength = Some (Fin 1), opContent = None,
         author = Some ''user1'', timestamp = Some (Fin 1000), fileId = Some ''file1''\<rparr>
        \<lparr>opId = Some ''op2'', opType = Retain, opLength = Some (Fin 2), opContent = None,
         author = Some ''user1'', timestamp = Some (Fin 1001), fileId = Some ''file1''\<rparr> = Some (Inr
        \<lparr>opId = Some ''op2'', opType = Retain, opLength = Some (Fin 2), opContent = None,
         author = Some ''user1'', timestamp = Some (Fin 1001), fileId = Some ''file1''\<rparr>)
   \<and> applyOperation ''Hello''
        \<lparr>opId = Some ''op2'', opType = Retain, opLength = Some (Fin 2), opContent = None,
         author = Some ''user1'', timestamp = Some (Fin 1001), fileId = Some ''file1''\<rparr> = ''He''
   \<and> applyOperation (applyOperation ''Hello''
        \<lparr>opId = Some ''op1'', opType = Retain, opLength = Some (Fin 1), opContent = None,
         author = Some ''user1'', timestamp = Some (Fin 1000), fileId = Some ''file1''\<rparr>)
        \<lparr>opId = Some ''op2'', opType = Retain, opLength = Some (Fin 2), opContent = None,
         author = Some ''user1'', timestamp = Some (Fin 1001), fileId = Some ''file1''\<rparr> = ''H''
   \<and> isValidOperation
        \<lparr>opId = Some ''op1'', opType = Insert, opLength = None, opContent = Some ''Hello'',
         author = Some ''user1'', timestamp = Some (Fin 1000), fileId = Some ''file1''\<rparr>
   \<and> isValidOperation
        \<lparr>opId = Some ''op2'', opType = Insert, opLength = None, opContent = Some '' World'',
         author = Some ''user1'', timestamp = Some (Fin 1001), fileId = Some ''file1''\<rparr>
   \<and> compose
        \<lparr>opId = Some ''op1'', opType = Insert, opLength = None, opContent = Some ''Hello'',
         author = Some ''user1'', timestamp = Some (Fin 1000), fileId = Some ''file1''\<rparr>
        \<lparr>opId = Some ''op2'', opType = Insert, opLength = None, opContent = Some '' World'',
         author = Some ''user1'', timestamp = Some (Fin 1001), fileId = Some ''file1''\<rparr> = Some (Inr
        \<lparr>opId = Some ''op2'', opType = Insert, opLength = None, opContent = Some ''Hello World'',
         author = Some ''user1'', timestamp = Some (Fin 1001), fileId = Some ''file1''\<rparr>)
   \<and> applyOperation []
        \<lparr>opId = Some ''op2'', opType = Insert, opLength = None, opContent = Some ''Hello World'',
         author = Some ''user1'', timestamp = Some (Fin 1001), fileId = Some ''file1''\<rparr> = ''Hello World''
   \<and> applyOperation (applyOperation []
        \<lparr>opId = Some ''op1'', opType = Insert, opLength = None, opContent = Some ''Hello'',
         author = Some ''user1'', timestamp = Some (Fin 1000), fileId = Some ''file1''\<rparr>)
        \<lparr>opId = Some ''op2'', opType = Insert, opLength = None, opContent = Some '' World'',
         author = Some ''user1'', timestamp = Some (Fin 1001), fileId = Some ''file1''\<rparr> = '' World''"
  by (simp add: compose_defs isValidOperation_def falsy_str_def falsy_num_def js_gt_def
        applyOperation_def applyTextOperation_def applyStep_def js_to_string_def)

text \<open>
  Claim C6 (compose fails exactly on a file mismatch). When the file ids differ
  \<open>compose\<close> throws its own error (lemma \<open>compose_cross_file\<close>). It also throws when
  they are equal: on the validator-accepted pair \<open>Insert "abc"\<close>, \<open>Delete 3\<close> of one
  file the composed script is empty and \<open>textOpToOperation\<close> reads a property of
  \<^verbatim>\<open>undefined\<close>.
\<close>

theorem compose_same_file_throws:
  "isValidOperation
        \<lparr>opId = Some ''op1'', opType = Insert, opLength = None, opContent = Some ''abc'',
         author = Some ''user1'', timestamp = Some (Fin 1000), fileId = Some ''file1''\<rparr>
   \<and> isValidOperation
        \<lparr>opId = Some ''op2'', opType = Delete, opLength = Some (Fin 3), opContent = None,
         author = Some ''user1'', timestamp = Some (Fin 1001), fileId = Some ''file1''\<rparr>
   \<and> fileId
        \<lparr>opId = Some ''op1'', opType = Insert, opLength = None, opContent = Some ''abc'',
         author = Some ''user1'', timestamp = Some (Fin 1000), fileId = Some ''file1''\<rparr> = fileId
        \<lparr>opId = Some ''op2'', opType = Delete, opLength = Some (Fin 3), opContent = None,
         author = Some ''user1'', timestamp = Some (Fin 1001), fileId = Some ''file1''\<rparr>
   \<and> compose
        \<lparr>opId = Some ''op1'', opType = Insert, opLength = None, opContent = Some ''abc'',
         author = Some ''user1'', timestamp = Some (Fin 1000), fileId = Some ''file1''\<rparr>
        \<lparr>opId = Some ''op2'', opType = Delete, opLength = Some (Fin 3), opContent = None,
         author = Some ''user1'', timestamp = Some (Fin 1001), fileId = Some ''file1''\<rparr> = Some (Inl TypeError)"
  by (simp add: compose_defs isValidOperation_def falsy_str_def falsy_num_def js_gt_def)

section \<open>Properties of the validator\<close>

text \<open>
  Claim C7 (validator), as amended. \<open>isValidOperation\<close> accepts an operation exactly
  when its id, author and file id are present and not the empty string, its timestamp
  is present and not zero, and an insert has a non-empty content, a delete or a
  retain a length greater than zero (finite or infinite); an operation of any other
  type is rejected. The function has no statement that throws.
\<close>

theorem isValidOperation_iff:
  "isValidOperation op \<longleftrightarrow>
     (\<exists>i. opId op = Some i \<and> i \<noteq> []) \<and> (\<exists>a. author op = Some a \<and> a \<noteq> [])
   \<and> (\<exists>f. fileId op = Some f \<and> f \<noteq> []) \<and> (\<exists>t. timestamp op = Some t \<and> t \<noteq> Fin 0)
   \<and> (opType op = Insert \<and> (\<exists>c. opContent op = Some c \<and> c \<noteq> [])
      \<or> (opType op = Delete \<or> opType op = Retain)
         \<and> (opLength op = Some PosInf \<or> (\<exists>n. opLength op = Some (Fin n) \<and> 0 < n)))"
  by (cases "opType op")
     (auto simp: isValidOperation_def falsy_str_def falsy_num_def js_gt_zero_iff
           split: option.splits)

text \<open>
  Claim C7 as stated fails on an insert with every field present and the timestamp 0:
  the specification's wording accepts it, the code's truthiness test
  \<^verbatim>\<open>!op.timestamp\<close> rejects it.
\<close>

theorem isValidOperation_rejects_zero_timestamp:
  "isValidOperation_spec
        \<lparr>opId = Some ''op1'', opType = Insert, opLength = None, opContent = Some ''Hello'',
         author = Some ''user1'', timestamp = Some (Fin 0), fileId = Some ''file1''\<rparr>
   \<and> \<not> isValidOperation
        \<lparr>opId = Some ''op1'', opType = Insert, opLength = None, opContent = Some ''Hello'',
         author = Some ''user1'', timestamp = Some (Fin 0), fileId = Some ''file1''\<rparr>"
  by (simp add: isValidOperation_spec_def isValidOperation_def falsy_str_def falsy_num_def)

section \<open>Properties of the operation history\<close>

lemma getOperations_all:
  "getOperations operations fid None = (case operations fid of None \<Rightarrow> [] | Some h \<Rightarrow> h)"
  by (simp add: getOperations_def falsy_num_def)

lemma getOperations_addOperation:
  "getOperations (addOperation fid operation operations) d None =
     (if d = fid
      then drop (length (getOperations operations fid None) + 1 - maxHistorySize)
             (getOperations operations fid None @ [operation])
      else getOperations operations d None)"
  by (auto simp: getOperations_all addOperation_def Let_def split: option.splits)

lemma drop_last_window:
  "drop (length (drop (length xs - m) xs) + 1 - m) (drop (length xs - m) xs @ [x])
     = drop (length xs + 1 - m) (xs @ [x])"
proof (cases "length xs \<le> m")
  case True
  then show ?thesis by simp
next
  case False
  then have len: "length (drop (length xs - m) xs) = m" by simp
  have idx: "length xs + 1 - m = Suc (length xs - m)" using False by simp
  have "drop (length (drop (length xs - m) xs) + 1 - m) (drop (length xs - m) xs @ [x])
          = drop 1 (drop (length xs - m) (xs @ [x]))"
    using False by (simp add: len)
  also have "\<dots> = drop (length xs + 1 - m) (xs @ [x])"
    unfolding idx drop_drop by simp
  finally show ?thesis .
qed

lemma addOperations_snoc:
  "addOperations (calls @ [c]) operations
     = addOperation (fst c) (snd c) (addOperations calls operations)"
  by (simp add: addOperations_def)

lemma history_window:
  "getOperations (addOperations calls Map.empty) d None =
     drop (length (map snd (filter (\<lambda>c. fst c = d) calls)) - maxHistorySize)
       (map snd (filter (\<lambda>c. fst c = d) calls))"
proof (induction calls rule: rev_induct)
  case Nil
  show ?case by (simp add: addOperations_def getOperations_all)
next
  case (snoc c calls)
  show ?case
  proof (cases "fst c = d")
    case True
    then show ?thesis
      using snoc
        drop_last_window [of "map snd (filter (\<lambda>c. fst c = d) calls)" maxHistorySize "snd c"]
      by (simp add: addOperations_snoc getOperations_addOperation)
  next
    case False
    then show ?thesis
      using snoc by (auto simp add: addOperations_snoc getOperations_addOperation)
  qed
qed

text \<open>
  Claim C8 (bounded history, oldest entries dropped first). After any sequence of
  \<open>addOperation\<close> calls on a new history, the history of a file \<open>d\<close> is the list of
  the operations appended to \<open>d\<close>, in the order of the calls, without its first
  \<open>k - 1000\<close> elements when \<open>k > 1000\<close> were appended: the most recent 1000. So it
  never holds more than 1000 operations.
\<close>

theorem history_bounded_fifo:
  "getOperations (addOperations calls Map.empty) d None =
     drop (length (map snd (filter (\<lambda>c. fst c = d) calls)) - 1000)
       (map snd (filter (\<lambda>c. fst c = d) calls))
   \<and> length (getOperations (addOperations calls Map.empty) d None) \<le> 1000"
  using history_window [of calls d] by (simp add: maxHistorySize_def)

text \<open>
  With a truthy \<open>since\<close> (neither absent, \<^verbatim>\<open>NaN\<close> nor zero) \<open>getOperations\<close>
  filters the stored array of the file; otherwise it returns the stored array.
\<close>

lemma getOperations_truthy:
  assumes "since \<noteq> None" and "since \<noteq> Some (Fin 0)"
  shows "getOperations operations d since =
           filter (\<lambda>op. case timestamp op of
                          None \<Rightarrow> False
                        | Some NegInf \<Rightarrow> False
                        | Some (Fin ts) \<Rightarrow>
                            (case since of Some (Fin t) \<Rightarrow> t < ts | Some NegInf \<Rightarrow> True
                             | _ \<Rightarrow> False)
                        | Some PosInf \<Rightarrow>
                            (case since of Some (Fin t) \<Rightarrow> True | Some NegInf \<Rightarrow> True
                             | _ \<Rightarrow> False))
             (case operations d of None \<Rightarrow> [] | Some h \<Rightarrow> h)"
proof -
  have "js_gt ts since =
          (case ts of
             None \<Rightarrow> False
           | Some NegInf \<Rightarrow> False
           | Some (Fin ts) \<Rightarrow>
               (case since of Some (Fin t) \<Rightarrow> t < ts | Some NegInf \<Rightarrow> True | _ \<Rightarrow> False)
           | Some PosInf \<Rightarrow>
               (case since of Some (Fin t) \<Rightarrow> True | Some NegInf \<Rightarrow> True | _ \<Rightarrow> False))"
    for ts
    by (cases ts; cases since) (auto simp: js_gt_def split: jsnumber.splits)
  then show ?thesis
    using assms by (simp add: getOperations_def falsy_num_def)
qed

lemma getOperations_falsy:
  assumes "since = None \<or> since = Some (Fin 0)"
  shows "getOperations operations d since = (case operations d of None \<Rightarrow> [] | Some h \<Rightarrow> h)"
  using assms by (auto simp: getOperations_def falsy_num_def)

text \<open>
  Claim C9 (operations since a timestamp), as amended. For a timestamp \<open>since\<close>
  other than zero and \<^verbatim>\<open>NaN\<close>, \<open>getOperations\<close> returns the operations stored for
  the file whose timestamp is greater than \<open>since\<close>, in their stored order; for a
  timestamp that is zero, \<^verbatim>\<open>NaN\<close> or absent it returns all the operations stored
  for the file. The stored operations are those appended to the file, in the order
  of the calls, less the ones evicted once more than 1000 are held. After appending
  operations with
  the timestamps 1000 and 2000, the operations since 1500 are the second one alone.
\<close>

theorem getOperations_since:
  "(since \<noteq> None \<and> since \<noteq> Some (Fin 0) \<longrightarrow>
      getOperations operations d since =
        filter (\<lambda>op. case timestamp op of
                       None \<Rightarrow> False
                     | Some NegInf \<Rightarrow> False
                     | Some (Fin ts) \<Rightarrow>
                         (case since of Some (Fin t) \<Rightarrow> t < ts | Some NegInf \<Rightarrow> True
                          | _ \<Rightarrow> False)
                     | Some PosInf \<Rightarrow>
                         (case since of Some (Fin t) \<Rightarrow> True | Some NegInf \<Rightarrow> True
                          | _ \<Rightarrow> False))
          (case operations d of None \<Rightarrow> [] | Some h \<Rightarrow> h)
      \<and> getOperations (addOperations calls Map.empty) d since =
        filter (\<lambda>op. case timestamp op of
                       None \<Rightarrow> False
                     | Some NegInf \<Rightarrow> False
                     | Some (Fin ts) \<Rightarrow>
                         (case since of Some (Fin t) \<Rightarrow> t < ts | Some NegInf \<Rightarrow> True
                          | _ \<Rightarrow> False)
                     | Some PosInf \<Rightarrow>
                         (case since of Some (Fin t) \<Rightarrow> True | Some NegInf \<Rightarrow> True
                          | _ \<Rightarrow> False))
          (drop (length (map snd (filter (\<lambda>c. fst c = d) calls)) - 1000)
             (map snd (filter (\<lambda>c. fst c = d) calls))))
   \<and> (since = None \<or> since = Some (Fin 0) \<longrightarrow>
        getOperations operations d since = (case operations d of None \<Rightarrow> [] | Some h \<Rightarrow> h)
        \<and> getOperations (addOperations calls Map.empty) d since =
            drop (length (map snd (filter (\<lambda>c. fst c = d) calls)) - 1000)
              (map snd (filter (\<lambda>c. fst c = d) calls)))
   \<and> getOperations
        (addOperation (Some ''file1'')
        \<lparr>opId = Some ''op2'', opType = Insert, opLength = None, opContent = Some ''B'',
         author = Some ''user2'', timestamp = Some (Fin 2000), fileId = Some ''file1''\<rparr>
           (addOperation (Some ''file1'')
        \<lparr>opId = Some ''op1'', opType = Insert, opLength = None, opContent = Some ''A'',
         author = Some ''user1'', timestamp = Some (Fin 1000), fileId = Some ''file1''\<rparr> Map.empty))
        (Some ''file1'') (Some (Fin 1500))
      = [
        \<lparr>opId = Some ''op2'', opType = Insert, opLength = None, opContent = Some ''B'',
         author = Some ''user2'', timestamp = Some (Fin 2000), fileId = Some ''file1''\<rparr>]"
proof -
  have stored: "(case addOperations calls Map.empty d of None \<Rightarrow> [] | Some h \<Rightarrow> h) =
      drop (length (map snd (filter (\<lambda>c. fst c = d) calls)) - 1000)
        (map snd (filter (\<lambda>c. fst c = d) calls))"
    using history_window [of calls d] by (simp add: getOperations_all maxHistorySize_def)
  show ?thesis
  proof (intro conjI impI)
    assume t: "since \<noteq> None \<and> since \<noteq> Some (Fin 0)"
    then show "getOperations operations d since =
        filter (\<lambda>op. case timestamp op of
                       None \<Rightarrow> False
                     | Some NegInf \<Rightarrow> False
                     | Some (Fin ts) \<Rightarrow>
                         (case since of Some (Fin t) \<Rightarrow> t < ts | Some NegInf \<Rightarrow> True
                          | _ \<Rightarrow> False)
                     | Some PosInf \<Rightarrow>
                         (case since of Some (Fin t) \<Rightarrow> True | Some NegInf \<Rightarrow> True
                          | _ \<Rightarrow> False))
          (case operations d of None \<Rightarrow> [] | Some h \<Rightarrow> h)"
      by (simp add: getOperations_truthy)
    from t show "getOperations (addOperations calls Map.empty) d since =
        filter (\<lambda>op. case timestamp op of
                       None \<Rightarrow> False
                     | Some NegInf \<Rightarrow> False
                     | Some (Fin ts) \<Rightarrow>
                         (case since of Some (Fin t) \<Rightarrow> t < ts | Some NegInf \<Rightarrow> True
                          | _ \<Rightarrow> False)
                     | Some PosInf \<Rightarrow>
                         (case since of Some (Fin t) \<Rightarrow> True | Some NegInf \<Rightarrow> True
                          | _ \<Rightarrow> False))
          (drop (length (map snd (filter (\<lambda>c. fst c = d) calls)) - 1000)
             (map snd (filter (\<lambda>c. fst c = d) calls)))"
      by (simp add: getOperations_truthy stored)
  next
    assume f: "since = None \<or> since = Some (Fin 0)"
    then show "getOperations operations d since = (case operations d of None \<Rightarrow> [] | Some h \<Rightarrow> h)"
      by (rule getOperations_falsy)
    from f show "getOperations (addOperations calls Map.empty) d since =
            drop (length (map snd (filter (\<lambda>c. fst c = d) calls)) - 1000)
              (map snd (filter (\<lambda>c. fst c = d) calls))"
      by (simp add: getOperations_falsy stored)
  next
    show "getOperations
        (addOperation (Some ''file1'')
        \<lparr>opId = Some ''op2'', opType = Insert, opLength = None, opContent = Some ''B'',
         author = Some ''user2'', timestamp = Some (Fin 2000), fileId = Some ''file1''\<rparr>
           (addOperation (Some ''file1'')
        \<lparr>opId = Some ''op1'', opType = Insert, opLength = None, opContent = Some ''A'',
         author = Some ''user1'', timestamp = Some (Fin 1000), fileId = Some ''file1''\<rparr> Map.empty))
        (Some ''file1'') (Some (Fin 1500))
      = [
        \<lparr>opId = Some ''op2'', opType = Insert, opLength = None, opContent = Some ''B'',
         author = Some ''user2'', timestamp = Some (Fin 2000), fileId = Some ''file1''\<rparr>]"
      by (simp add: getOperations_def addOperation_def maxHistorySize_def falsy_num_def js_gt_def)
  qed
qed

theorem getOperations_since_witness:
  "Some (Fin 500) \<noteq> None \<and> Some (Fin 500) \<noteq> Some (Fin 0)
   \<and> getOperations
        (addOperation (Some ''file1'')
        \<lparr>opId = Some ''op2'', opType = Insert, opLength = None, opContent = Some ''B'',
         author = Some ''user2'', timestamp = Some (Fin 2000), fileId = Some ''file1''\<rparr>
           (addOperation (Some ''file1'')
        \<lparr>opId = Some ''op1'', opType = Insert, opLength = None, opContent = Some ''A'',
         author = Some ''user1'', timestamp = Some (Fin 1000), fileId = Some ''file1''\<rparr> Map.empty))
        (Some ''file1'') (Some (Fin 500))
      = [
        \<lparr>opId = Some ''op1'', opType = Insert, opLength = None, opContent = Some ''A'',
         author = Some ''user1'', timestamp = Some (Fin 1000), fileId = Some ''file1''\<rparr>,
        \<lparr>opId = Some ''op2'', opType = Insert, opLength = None, opContent = Some ''B'',
         author = Some ''user2'', timestamp = Some (Fin 2000), fileId = Some ''file1''\<rparr>]"
  using getOperations_since
    [of "Some (Fin 500)"
        "addOperation (Some ''file1'')
        \<lparr>opId = Some ''op2'', opType = Insert, opLength = None, opContent = Some ''B'',
         author = Some ''user2'', timestamp = Some (Fin 2000), fileId = Some ''file1''\<rparr>
           (addOperation (Some ''file1'')
        \<lparr>opId = Some ''op1'', opType = Insert, opLength = None, opContent = Some ''A'',
         author = Some ''user1'', timestamp = Some (Fin 1000), fileId = Some ''file1''\<rparr> Map.empty)"
        "Some ''file1''"]
  by (simp add: addOperation_def maxHistorySize_def)

text \<open>
  Claim C9 as stated fails at the timestamp zero: with one recorded operation of
  timestamp \<open>-5\<close>, which is not greater than zero, \<open>getOperations\<close> at zero returns
  that operation.
\<close>

theorem getOperations_since_zero_returns_all:
  "getOperations (addOperation (Some ''file1'')
        \<lparr>opId = Some ''op1'', opType = Insert, opLength = None, opContent = Some ''A'',
         author = Some ''user1'', timestamp = Some (Fin (- 5)), fileId = Some ''file1''\<rparr> Map.empty)
      (Some ''file1'') (Some (Fin 0))
     = [
        \<lparr>opId = Some ''op1'', opType = Insert, opLength = None, opContent = Some ''A'',
         author = Some ''user1'', timestamp = Some (Fin (- 5)), fileId = Some ''file1''\<rparr>]
   \<and> timestamp
        \<lparr>opId = Some ''op1'', opType = Insert, opLength = None, opContent = Some ''A'',
         author = Some ''user1'', timestamp = Some (Fin (- 5)), fileId = Some ''file1''\<rparr> = Some (Fin (- 5))"
  by (simp add: getOperations_def addOperation_def maxHistorySize_def falsy_num_def)

end
